theory Spec2Isabelle
  imports Complex_Main "HOL-Library.Word" "HOL-Library.Multiset"
begin

unbundle bit_operations_syntax

section \<open>Strings and bytes\<close>

text \<open>
  A JavaScript string is a sequence of UTF-16 code units; a code unit is modelled by its
  number. \<open>str\<close> turns an ASCII literal of the theory into such a string. A Buffer is a
  list of bytes.
\<close>

type_synonym jsstring = "nat list"
type_synonym bytes = "8 word list"

definition str :: "string \<Rightarrow> jsstring" where
  "str s = map of_char s"

definition startsWith :: "jsstring \<Rightarrow> jsstring \<Rightarrow> bool" where
  "startsWith s p = (take (length p) s = p)"

definition endsWith :: "jsstring \<Rightarrow> jsstring \<Rightarrow> bool" where
  "endsWith s p = (length p \<le> length s \<and> drop (length s - length p) s = p)"

text \<open>\<open>s.includes(q)\<close>: \<open>q\<close> occurs in \<open>s\<close> at some position.\<close>

fun str_includes :: "jsstring \<Rightarrow> jsstring \<Rightarrow> bool" where
  "str_includes [] q = (q = [])"
| "str_includes (c # cs) q = (startsWith (c # cs) q \<or> str_includes cs q)"

section \<open>Tag merge: \<open>pickSimilarExisting\<close> (documents router, upload handler)\<close>

text \<open>
  \<^verbatim>\<open>const singular = (s: string) => s.endsWith('s') ? s.slice(0, -1) : s;\<close>
\<close>

definition singular :: "jsstring \<Rightarrow> jsstring" where
  "singular s = (if endsWith s (str ''s'') then take (length s - 1) s else s)"

record tag_row =
  tag_id :: nat
  tag_name :: jsstring

text \<open>
  The loop over \<open>existingTags\<close>: the first row that passes one of the three tests is
  returned; when the rows are exhausted the candidate itself is.
\<close>

fun pickSimilarExisting :: "tag_row list \<Rightarrow> jsstring \<Rightarrow> jsstring" where
  "pickSimilarExisting [] candidate = candidate"
| "pickSimilarExisting (row # rows) candidate =
     (let cSing = singular candidate; n = tag_name row in
      if n = candidate then n
      else if singular n = cSing then n
      else if startsWith n cSing \<or> startsWith cSing n then n
      else pickSimilarExisting rows candidate)"

text \<open>
  The selection test as the specification words it: equal, or equal after singularizing
  both, or one a prefix of the other after singularizing both.
\<close>

definition similar_spec :: "jsstring \<Rightarrow> jsstring \<Rightarrow> bool" where
  "similar_spec candidate n =
     (n = candidate \<or> singular n = singular candidate
      \<or> startsWith (singular n) (singular candidate)
      \<or> startsWith (singular candidate) (singular n))"

text \<open>
  The selection test of the loop body: the prefix tests compare the existing name as it
  is stored with the singularized candidate.
\<close>

definition similar_code :: "jsstring \<Rightarrow> jsstring \<Rightarrow> bool" where
  "similar_code candidate n =
     (n = candidate \<or> singular n = singular candidate
      \<or> startsWith n (singular candidate)
      \<or> startsWith (singular candidate) n)"

section \<open>Regular expressions of the field parser\<close>

text \<open>
  The patterns of \<open>extractDocumentData\<close> are written as terms of a small regular
  expression type and run by a backtracking matcher in the order of JavaScript's:
  alternatives left to right, repetitions greedy. A character class is a list of
  inclusive ranges of code units.
\<close>

datatype regex =
    Eps
  | Chr nat
  | Cls "(nat \<times> nat) list"
  | Seq regex regex
  | Alt regex regex
  | Rep regex nat "nat option"

definition in_class :: "(nat \<times> nat) list \<Rightarrow> nat \<Rightarrow> bool" where
  "in_class rs c = list_ex (\<lambda>(lo, hi). lo \<le> c \<and> c \<le> hi) rs"

text \<open>
  Under the \<open>i\<close> flag two code units match when their upper-case forms agree. The
  patterns here hold ASCII letters only, which no code unit outside ASCII matches, so
  the canonical form is needed on ASCII alone.
\<close>

definition canonicalize :: "bool \<Rightarrow> nat \<Rightarrow> nat" where
  "canonicalize ignoreCase c = (if ignoreCase \<and> 97 \<le> c \<and> c \<le> 122 then c - 32 else c)"

text \<open>
  \<open>matches i r s\<close> lists, in order of preference, what is left of \<open>s\<close> after each way of
  matching \<open>r\<close> at its start. \<open>Rep r lo hi\<close> is \<open>r{lo,hi}\<close> (\<open>None\<close>: no upper bound); an
  iteration that consumes nothing is not repeated.
\<close>

function matches :: "bool \<Rightarrow> regex \<Rightarrow> jsstring \<Rightarrow> jsstring list" where
  "matches i Eps s = [s]"
| "matches i (Chr c) s =
     (case s of [] \<Rightarrow> [] | x # xs \<Rightarrow> if canonicalize i x = canonicalize i c then [xs] else [])"
| "matches i (Cls rs) s =
     (case s of [] \<Rightarrow> [] | x # xs \<Rightarrow> if in_class rs x then [xs] else [])"
| "matches i (Seq a b) s = concat (map (matches i b) (matches i a s))"
| "matches i (Alt a b) s = matches i a s @ matches i b s"
| "matches i (Rep r lo hi) s =
     (if hi = Some 0 then [s]
      else concat (map (matches i (Rep r (lo - 1) (map_option (\<lambda>h. h - 1) hi)))
                       (filter (\<lambda>s'. length s' < length s) (matches i r s)))
           @ (if lo = 0 then [s] else []))"
  by pat_completeness auto
termination
  by (relation "measures [\<lambda>(i, r, s). size r, \<lambda>(i, r, s). length s]") auto

definition seqs :: "regex list \<Rightarrow> regex" where
  "seqs rs = foldr Seq rs Eps"

definition lit :: "string \<Rightarrow> regex" where
  "lit s = seqs (map (\<lambda>c. Chr (of_char c)) s)"

fun alts :: "regex list \<Rightarrow> regex" where
  "alts [] = Cls []"
| "alts [r] = r"
| "alts (r # rs) = Alt r (alts rs)"

definition star :: "regex \<Rightarrow> regex" where "star r = Rep r 0 None"
definition plus_re :: "regex \<Rightarrow> regex" where "plus_re r = Rep r 1 None"
definition opt :: "regex \<Rightarrow> regex" where "opt r = Rep r 0 (Some 1)"

text \<open>
  \<open>text.match(re)\<close> with the \<open>g\<close> flag returns every match, or null; the code reads
  element 0 only, the leftmost match: \<open>search\<close> returns its text.
\<close>

fun search :: "bool \<Rightarrow> regex \<Rightarrow> jsstring \<Rightarrow> jsstring option" where
  "search i r [] = (case matches i r [] of [] \<Rightarrow> None | rest # _ \<Rightarrow> Some [])"
| "search i r (c # cs) =
     (case matches i r (c # cs) of
        [] \<Rightarrow> search i r cs
      | rest # _ \<Rightarrow> Some (take (length (c # cs) - length rest) (c # cs)))"

text \<open>\<open>\d\<close>, \<open>\s\<close>, \<open>[A-Z]\<close>, \<open>[a-z]\<close>.\<close>

definition digit_ranges :: "(nat \<times> nat) list" where
  "digit_ranges = [(48, 57)]"

definition space_ranges :: "(nat \<times> nat) list" where
  "space_ranges = [(9, 13), (32, 32), (160, 160), (5760, 5760), (8192, 8202), (8232, 8233),
                   (8239, 8239), (8287, 8287), (12288, 12288), (65279, 65279)]"

definition digit :: regex where "digit = Cls digit_ranges"
definition space :: regex where "space = Cls space_ranges"
definition upper :: regex where "upper = Cls [(65, 90)]"
definition lower :: regex where "lower = Cls [(97, 122)]"

text \<open>
  \<^verbatim>\<open>/(\d+[.,]\d{2})\s*E?/g\<close>, where \<open>E\<close> stands for the euro sign, the code unit 8364
  (U+20AC).
\<close>

definition amountRegex :: regex where
  "amountRegex =
     seqs [plus_re digit, Cls [(46, 46), (44, 44)], Rep digit 2 (Some 2), star space, opt (Chr 8364)]"

text \<open>\<^verbatim>\<open>/(\d{1,2}[\/\-\.]\d{1,2}[\/\-\.]\d{2,4})/g\<close>\<close>

definition date_sep :: regex where "date_sep = Cls [(47, 47), (45, 45), (46, 46)]"

definition dateRegex :: regex where
  "dateRegex =
     seqs [Rep digit 1 (Some 2), date_sep, Rep digit 1 (Some 2), date_sep, Rep digit 2 (Some 4)]"

text \<open>\<^verbatim>\<open>/(?:factura|invoice|ticket|recibo)[\s\#\:]*(\d+)/gi\<close>\<close>

definition invoiceRegex :: regex where
  "invoiceRegex =
     seqs [alts [lit ''factura'', lit ''invoice'', lit ''ticket'', lit ''recibo''],
           star (Cls (space_ranges @ [(35, 35), (58, 58)])), plus_re digit]"

text \<open>\<^verbatim>\<open>/(?:de|from|para|to)[\s:]+([A-Z][a-z]+(?:\s+[A-Z][a-z]+)*)/g\<close>\<close>

definition capitalized :: regex where "capitalized = Seq upper (plus_re lower)"

definition providerRegex :: regex where
  "providerRegex =
     seqs [alts [lit ''de'', lit ''from'', lit ''para'', lit ''to''],
           plus_re (Cls (space_ranges @ [(58, 58)])),
           capitalized, star (Seq (plus_re space) capitalized)]"

text \<open>\<^verbatim>\<open>/^(de|from|para|to)[\s:]+/i\<close>, the prefix that \<open>replace\<close> removes.\<close>

definition providerPrefix :: regex where
  "providerPrefix =
     seqs [alts [lit ''de'', lit ''from'', lit ''para'', lit ''to''],
           plus_re (Cls (space_ranges @ [(58, 58)]))]"

text \<open>\<open>s.replace(',', '.')\<close> with a string pattern replaces the first occurrence only.\<close>

fun replace_first :: "nat \<Rightarrow> nat \<Rightarrow> jsstring \<Rightarrow> jsstring" where
  "replace_first a b [] = []"
| "replace_first a b (c # cs) = (if c = a then b # cs else c # replace_first a b cs)"

text \<open>\<open>s.replace(/^r/, '')\<close>: the match at the start of \<open>s\<close>, when there is one, is removed.\<close>

definition strip_prefix :: "bool \<Rightarrow> regex \<Rightarrow> jsstring \<Rightarrow> jsstring" where
  "strip_prefix i r s = (case matches i r s of [] \<Rightarrow> s | rest # _ \<Rightarrow> rest)"

section \<open>Field parser: \<open>extractDocumentData\<close>\<close>

text \<open>The object \<open>data\<close>: a field is \<open>None\<close> when the code never sets it.\<close>

record document_data =
  amount :: "jsstring option"
  issueDate :: "jsstring option"
  invoiceNumber :: "jsstring option"
  provider :: "jsstring option"

definition extractDocumentData :: "jsstring \<Rightarrow> document_data" where
  "extractDocumentData text =
     \<lparr> amount = map_option (replace_first 44 46) (search False amountRegex text),
       issueDate = search False dateRegex text,
       invoiceNumber = map_option (filter (\<lambda>c. in_class digit_ranges c)) (search True invoiceRegex text),
       provider = map_option (strip_prefix True providerPrefix) (search False providerRegex text) \<rparr>"

section \<open>Crypto vault: \<open>encryptBuffer\<close> and \<open>decryptBuffer\<close> (documents router)\<close>

text \<open>
  Node's \<open>crypto\<close> module is not part of the repository. Its three primitives are the
  fields of \<open>crypto_lib\<close>, over which every definition below is parametric:
  \<^item> \<open>scryptSync password salt\<close> with key length 32: a 256-bit key;
  \<^item> \<open>keystream key iv k\<close>: byte \<open>k\<close> of the counter-mode keystream of AES-256 under
    \<open>key\<close>, started from the 96-bit \<open>iv\<close>;
  \<^item> \<open>gcm_tag key iv aad ciphertext\<close>: the 128-bit authentication tag.
  AES-256-GCM encrypts by XOR with the keystream and tags the ciphertext together with
  the associated data; decryption recomputes the tag, and \<open>final()\<close> throws when it
  differs from the one set by \<open>setAuthTag\<close>.
\<close>

record crypto_lib =
  scryptSync :: "jsstring \<Rightarrow> jsstring \<Rightarrow> 256 word"
  keystream :: "256 word \<Rightarrow> 96 word \<Rightarrow> nat \<Rightarrow> 8 word"
  gcm_tag :: "256 word \<Rightarrow> 96 word \<Rightarrow> bytes \<Rightarrow> bytes \<Rightarrow> 128 word"

datatype exn = ZodError | FsError | DbError | AuthError

definition xor_stream :: "crypto_lib \<Rightarrow> 256 word \<Rightarrow> 96 word \<Rightarrow> bytes \<Rightarrow> bytes" where
  "xor_stream lib key iv buffer =
     map (\<lambda>(b, k). b XOR keystream lib key iv k) (zip buffer [0 ..< length buffer])"

definition gcm_encrypt ::
  "crypto_lib \<Rightarrow> 256 word \<Rightarrow> 96 word \<Rightarrow> bytes \<Rightarrow> bytes \<Rightarrow> bytes \<times> 128 word" where
  "gcm_encrypt lib key iv aad buffer =
     (let encrypted = xor_stream lib key iv buffer
      in (encrypted, gcm_tag lib key iv aad encrypted))"

definition gcm_decrypt ::
  "crypto_lib \<Rightarrow> 256 word \<Rightarrow> 96 word \<Rightarrow> bytes \<Rightarrow> 128 word \<Rightarrow> bytes \<Rightarrow> exn + bytes" where
  "gcm_decrypt lib key iv aad authTag buffer =
     (if gcm_tag lib key iv aad buffer = authTag
      then Inr (xor_stream lib key iv buffer)
      else Inl AuthError)"

text \<open>The process environment: \<open>FILE_ENC_SECRET\<close> and the parsed \<open>MAX_FILE_SIZE\<close>.\<close>

record config =
  FILE_ENC_SECRET :: "jsstring option"
  MAX_FILE_SIZE :: nat

text \<open>\<^verbatim>\<open>process.env.FILE_ENC_SECRET || 'dev-secret-change'\<close>: unset and empty both fall back.\<close>

definition baseSecret :: "config \<Rightarrow> jsstring" where
  "baseSecret cfg =
     (case FILE_ENC_SECRET cfg of
        None \<Rightarrow> str ''dev-secret-change''
      | Some s \<Rightarrow> if s = [] then str ''dev-secret-change'' else s)"

text \<open>A user id is a row id of the store; in a template string it prints in decimal.\<close>

function decimal :: "nat \<Rightarrow> jsstring" where
  "decimal n = (if n < 10 then [48 + n] else decimal (n div 10) @ [48 + n mod 10])"
  by pat_completeness auto
termination
  by (relation "measure (\<lambda>n. n)") auto

text \<open>\<^verbatim>\<open>crypto.scryptSync(`${baseSecret}:${userId}`, 'flecsa-salt', 32)\<close>\<close>

definition derive_key :: "crypto_lib \<Rightarrow> config \<Rightarrow> nat \<Rightarrow> 256 word" where
  "derive_key lib cfg userId =
     scryptSync lib (baseSecret cfg @ str '':'' @ decimal userId) (str ''flecsa-salt'')"

text \<open>\<^verbatim>\<open>Buffer.from('flecsa-document', 'utf8')\<close>\<close>

definition aad :: bytes where
  "aad = map of_char ''flecsa-document''"

text \<open>
  \<open>encryptBuffer\<close> draws its IV from \<open>crypto.randomBytes(12)\<close>; the drawn value is the
  argument \<open>iv\<close>. The result is the triple \<open>(encrypted, iv, authTag)\<close>.
\<close>

definition encryptBuffer ::
  "crypto_lib \<Rightarrow> config \<Rightarrow> 96 word \<Rightarrow> bytes \<Rightarrow> nat \<Rightarrow> bytes \<times> 96 word \<times> 128 word" where
  "encryptBuffer lib cfg iv buffer userId =
     (let key = derive_key lib cfg userId;
          (encrypted, authTag) = gcm_encrypt lib key iv aad buffer
      in (encrypted, iv, authTag))"

definition decryptBuffer ::
  "crypto_lib \<Rightarrow> config \<Rightarrow> bytes \<Rightarrow> 96 word \<Rightarrow> 128 word \<Rightarrow> nat \<Rightarrow> exn + bytes" where
  "decryptBuffer lib cfg buffer iv authTag userId =
     (let key = derive_key lib cfg userId
      in gcm_decrypt lib key iv aad authTag buffer)"

section \<open>Paths and the filesystem\<close>

text \<open>
  Node's \<open>path\<close> functions on POSIX paths, for the names the multer configuration
  produces: a normalized directory and a plain file name. The separator is the code
  unit 47, the dot 46.
\<close>

definition path_basename :: "jsstring \<Rightarrow> jsstring" where
  "path_basename p = rev (takeWhile (\<lambda>c. c \<noteq> 47) (rev p))"

definition path_extname :: "jsstring \<Rightarrow> jsstring" where
  "path_extname p =
     (let b = path_basename p; e = rev (takeWhile (\<lambda>c. c \<noteq> 46) (rev b))
      in if 46 \<notin> set b then []
         else if length e + 1 = length b then []
         else if b = [46, 46] then []
         else 46 # e)"

text \<open>\<open>path.basename(p, ext)\<close>\<close>

definition path_basename_ext :: "jsstring \<Rightarrow> jsstring \<Rightarrow> jsstring" where
  "path_basename_ext p ext =
     (let b = path_basename p
      in if ext \<noteq> [] \<and> p = ext then []
         else if ext \<noteq> [] \<and> b \<noteq> ext \<and> endsWith b ext then take (length b - length ext) b
         else b)"

definition path_dirname :: "jsstring \<Rightarrow> jsstring" where
  "path_dirname p =
     (let d = rev (drop 1 (dropWhile (\<lambda>c. c \<noteq> 47) (rev p)))
      in if d \<noteq> [] then d else if 47 \<in> set p then [47] else [46])"

definition path_join :: "jsstring \<Rightarrow> jsstring \<Rightarrow> jsstring" where
  "path_join dir name = dir @ [47] @ name"

text \<open>
  The filesystem maps a path to the content of the file there. \<open>unlink\<close> and \<open>readFile\<close>
  throw when there is no file at the path.
\<close>

type_synonym filesystem = "jsstring \<rightharpoonup> bytes"

definition fs_unlink :: "filesystem \<Rightarrow> jsstring \<Rightarrow> exn + filesystem" where
  "fs_unlink fs p = (case fs p of None \<Rightarrow> Inl FsError | Some _ \<Rightarrow> Inr (fs(p := None)))"

definition fs_readFile :: "filesystem \<Rightarrow> jsstring \<Rightarrow> exn + bytes" where
  "fs_readFile fs p = (case fs p of None \<Rightarrow> Inl FsError | Some b \<Rightarrow> Inr b)"

section \<open>Ingestion: \<open>POST /upload\<close> (documents router)\<close>

subsection \<open>Request, store and outside world\<close>

text \<open>The file part of the multipart request, and \<open>req.file\<close> as multer's disk storage sets it.\<close>

record file_part =
  part_originalname :: jsstring
  part_mimetype :: jsstring
  part_content :: bytes

record upload_file =
  originalname :: jsstring
  mimetype :: jsstring
  file_size :: nat
  filename :: jsstring
  path :: jsstring

text \<open>
  A field of a parsed request body: a string, a number, or something else. A text field
  of a multipart body is a string unless the client repeats the field or gives it a
  bracketed name, which make it an array or an object. A number is kept as an exact
  rational.
\<close>

datatype jsvalue = JString jsstring | JNumber rat | JOther

record 'a upload_fields =
  f_provider :: "'a option"
  f_invoiceNumber :: "'a option"
  f_currency :: "'a option"
  f_amount :: "'a option"
  f_issueDate :: "'a option"

text \<open>
  The rows of \<open>documents\<close> and \<open>ocr_results\<close>, with the columns the INSERTs name.
  \<open>d_amount\<close> holds the text that the handler hands to \<open>parseFloat\<close>, and \<open>d_meta\<close> and
  \<open>ocr_json\<close> the object that \<open>JSON.stringify\<close> serializes (\<open>None\<close> for null).
\<close>

record document_row =
  d_user_id :: nat
  d_filename :: jsstring
  d_mime_type :: jsstring
  d_byte_size :: nat
  d_storage_path :: jsstring
  d_iv :: "96 word"
  d_auth_tag :: "128 word"
  d_status :: jsstring
  d_provider :: "jsstring option"
  d_invoice_number :: "jsstring option"
  d_currency :: jsstring
  d_amount :: "jsstring option"
  d_issue_date :: "jsstring option"
  d_meta :: "document_data option"

record ocr_row =
  ocr_document_id :: nat
  ocr_text :: jsstring
  ocr_json :: "document_data option"

text \<open>
  The persistent state the handler touches: the files on disk, the two tables, and the
  column \<open>storage_used\<close> of \<open>users\<close> by user id. The tables \<open>tags\<close> and
  \<open>document_tags\<close>, written only by the auto-tagging block, which catches its own
  exceptions, are not part of this state.
\<close>

record store =
  files :: filesystem
  documents :: "document_row list"
  ocr_results :: "ocr_row list"
  storage_used :: "nat \<Rightarrow> nat"

text \<open>
  What the outside world decides during one request: the directory and unique suffix
  multer picks, the text tesseract recognizes (\<open>None\<close> when it throws), the random
  IV, the id the store gives the new document, and which of the fallible calls throw.
\<close>

record env =
  uploadDir :: jsstring
  uniqueSuffix :: jsstring
  recognized :: "jsstring option"
  randomBytes :: "96 word"
  insertId :: nat
  writeFile_fails :: bool
  insert_document_fails :: bool
  insert_ocr_fails :: bool
  update_users_fails :: bool

subsection \<open>The steps\<close>

text \<open>
  \<open>upload.single('document')\<close>: a file larger than \<open>limits.fileSize\<close> is refused with an
  error that Express answers with 500; otherwise the file is written under the name
  \<open>uniqueSuffix + path.extname(file.originalname)\<close> in the upload directory.
\<close>

definition multer_single ::
  "config \<Rightarrow> env \<Rightarrow> file_part option \<Rightarrow> store \<Rightarrow> nat + (upload_file option \<times> store)" where
  "multer_single cfg e part st =
     (case part of
        None \<Rightarrow> Inr (None, st)
      | Some p \<Rightarrow>
          if length (part_content p) > MAX_FILE_SIZE cfg then Inl 500
          else let name = uniqueSuffix e @ path_extname (part_originalname p);
                   file = \<lparr> originalname = part_originalname p, mimetype = part_mimetype p,
                            file_size = length (part_content p), filename = name,
                            path = path_join (uploadDir e) name \<rparr>
               in Inr (Some file, st\<lparr>files := (files st)(path file \<mapsto> part_content p)\<rparr>))"

text \<open>\<open>uploadSchema.parse\<close>: every field is \<open>z.string().optional()\<close>.\<close>

definition parse_field :: "jsvalue option \<Rightarrow> exn + jsstring option" where
  "parse_field v =
     (case v of None \<Rightarrow> Inr None | Some (JString s) \<Rightarrow> Inr (Some s) | Some _ \<Rightarrow> Inl ZodError)"

definition uploadSchema_parse :: "jsvalue upload_fields \<Rightarrow> exn + jsstring upload_fields" where
  "uploadSchema_parse body =
     (case (parse_field (f_provider body), parse_field (f_invoiceNumber body),
            parse_field (f_currency body), parse_field (f_amount body),
            parse_field (f_issueDate body)) of
        (Inr p, Inr n, Inr c, Inr a, Inr d) \<Rightarrow>
          Inr \<lparr> f_provider = p, f_invoiceNumber = n, f_currency = c, f_amount = a, f_issueDate = d \<rparr>
      | _ \<Rightarrow> Inl ZodError)"

text \<open>\<open>x || null\<close> on an optional string: the empty string counts as absent.\<close>

definition or_null :: "jsstring option \<Rightarrow> jsstring option" where
  "or_null x = (case x of None \<Rightarrow> None | Some s \<Rightarrow> if s = [] then None else Some s)"

text \<open>\<open>processOCR\<close> catches a failure of tesseract and returns an empty text and no data.\<close>

definition processOCR :: "jsstring option \<Rightarrow> jsstring \<times> document_data option" where
  "processOCR result =
     (case result of
        Some text \<Rightarrow> (text, Some (extractDocumentData text))
      | None \<Rightarrow> ([], None))"

text \<open>\<open>s.replace(/\s+/g, ' ')\<close>: every maximal run of whitespace becomes one space.\<close>

fun collapse_ws :: "bool \<Rightarrow> jsstring \<Rightarrow> jsstring" where
  "collapse_ws in_run [] = []"
| "collapse_ws in_run (c # cs) =
     (if in_class space_ranges c
      then (if in_run then collapse_ws True cs else 32 # collapse_ws True cs)
      else c # collapse_ws False cs)"

definition trim :: "jsstring \<Rightarrow> jsstring" where
  "trim s = rev (dropWhile (in_class space_ranges) (rev (dropWhile (in_class space_ranges) s)))"

text \<open>The text written to \<open>ocr_results\<close>.\<close>

definition stored_ocr_text :: "bool \<Rightarrow> jsstring \<Rightarrow> jsstring" where
  "stored_ocr_text isImage ocrText =
     (let trimmedOcr = trim (collapse_ws False ocrText);
          hasMeaningfulText = (length trimmedOcr \<ge> 20)
      in if isImage \<and> \<not> hasMeaningfulText then [] else ocrText)"

subsection \<open>Quota pre-check: \<open>checkStorageLimit\<close> (auth middleware)\<close>

text \<open>\<open>req.user\<close>, as \<open>authenticateToken\<close> read it from the users table.\<close>

record user =
  user_id :: nat
  storageUsed :: nat
  storageLimit :: nat

datatype middleware_result = Respond nat | Next

text \<open>
  The middleware runs before multer, on the body as the JSON or urlencoded parser left
  it. \<open>req.body.fileSize\<close> is then any value such a body can hold: null, a boolean, a
  number, a string (all a urlencoded body has), or an array or object, which is kept
  here as the string JavaScript converts it to. An absent field is \<open>None\<close>.
\<close>

datatype body_value =
    VNull
  | VBool bool
  | VNumber rat
  | VString jsstring
  | VObject jsstring

text \<open>The operand test of \<open>||\<close>.\<close>

definition truthy :: "body_value \<Rightarrow> bool" where
  "truthy v =
     (case v of
        VNull \<Rightarrow> False
      | VBool b \<Rightarrow> b
      | VNumber n \<Rightarrow> n \<noteq> 0
      | VString s \<Rightarrow> s \<noteq> []
      | VObject _ \<Rightarrow> True)"

text \<open>
  \<open>req.user.storageUsed + fileSize\<close>: with a string (or an array or object) on the right
  the number is printed and the two are concatenated; otherwise the sum is numeric, null
  counting 0 and a boolean 0 or 1.
\<close>

datatype js_sum = SumNumber rat | SumString jsstring

definition js_add :: "nat \<Rightarrow> body_value \<Rightarrow> js_sum" where
  "js_add used v =
     (case v of
        VNull \<Rightarrow> SumNumber (of_nat used)
      | VBool b \<Rightarrow> SumNumber (of_nat used + (if b then 1 else 0))
      | VNumber n \<Rightarrow> SumNumber (of_nat used + n)
      | VString s \<Rightarrow> SumString (decimal used @ s)
      | VObject s \<Rightarrow> SumString (decimal used @ s))"

text \<open>
  A string compared with a number is first converted to a number: surrounding whitespace
  is dropped, the empty string is 0, a literal \<open>0x\<close>, \<open>0o\<close> or \<open>0b\<close> is read in its
  radix, a signed decimal literal with optional fraction and exponent is read in
  decimal, and anything else is NaN. The value is kept exact.
\<close>

datatype js_number = NaN | Finite rat | PosInfinity | NegInfinity

definition digit_value :: "nat \<Rightarrow> nat" where
  "digit_value c = (if 97 \<le> c then c - 87 else if 65 \<le> c then c - 55 else c - 48)"

definition is_digit_of :: "nat \<Rightarrow> nat \<Rightarrow> bool" where
  "is_digit_of radix c =
     ((in_class [(48, 57), (65, 70), (97, 102)] c) \<and> digit_value c < radix)"

definition radix_value :: "nat \<Rightarrow> jsstring \<Rightarrow> nat" where
  "radix_value radix ds = foldl (\<lambda>acc c. radix * acc + digit_value c) 0 ds"

definition parse_exponent :: "jsstring \<Rightarrow> int option" where
  "parse_exponent r =
     (case r of
        [] \<Rightarrow> Some 0
      | c # r1 \<Rightarrow>
          if c = 101 \<or> c = 69 then
            (let negative = (r1 \<noteq> [] \<and> hd r1 = 45);
                 ds = (if r1 \<noteq> [] \<and> (hd r1 = 43 \<or> hd r1 = 45) then tl r1 else r1)
             in if ds \<noteq> [] \<and> list_all (is_digit_of 10) ds
                then Some (if negative then - int (radix_value 10 ds) else int (radix_value 10 ds))
                else None)
          else None)"

definition parse_unsigned_decimal :: "jsstring \<Rightarrow> rat option" where
  "parse_unsigned_decimal s =
     (let ip = takeWhile (is_digit_of 10) s;
          r1 = dropWhile (is_digit_of 10) s;
          dot = (r1 \<noteq> [] \<and> hd r1 = 46);
          fp = (if dot then takeWhile (is_digit_of 10) (tl r1) else []);
          r2 = (if dot then dropWhile (is_digit_of 10) (tl r1) else r1)
      in if ip = [] \<and> fp = [] then None
         else (case parse_exponent r2 of
                 None \<Rightarrow> None
               | Some e \<Rightarrow>
                   let mantissa = of_nat (radix_value 10 ip)
                                  + of_nat (radix_value 10 fp) / 10 ^ length fp
                   in Some (if 0 \<le> e then mantissa * 10 ^ nat e
                            else mantissa / 10 ^ nat (- e))))"

definition parse_decimal :: "jsstring \<Rightarrow> js_number" where
  "parse_decimal s =
     (let negative = (s \<noteq> [] \<and> hd s = 45);
          body = (if s \<noteq> [] \<and> (hd s = 43 \<or> hd s = 45) then tl s else s)
      in if body = str ''Infinity'' then (if negative then NegInfinity else PosInfinity)
         else (case parse_unsigned_decimal body of
                 None \<Rightarrow> NaN
               | Some v \<Rightarrow> Finite (if negative then - v else v)))"

definition parse_nondecimal :: "jsstring \<Rightarrow> nat option" where
  "parse_nondecimal s =
     (case s of
        z # x # ds \<Rightarrow>
          let radix = (if x = 120 \<or> x = 88 then 16
                       else if x = 111 \<or> x = 79 then 8
                       else if x = 98 \<or> x = 66 then 2 else 0)
          in if z = 48 \<and> radix \<noteq> 0 \<and> ds \<noteq> [] \<and> list_all (is_digit_of radix) ds
             then Some (radix_value radix ds) else None
      | _ \<Rightarrow> None)"

definition string_to_number :: "jsstring \<Rightarrow> js_number" where
  "string_to_number s =
     (let t = trim s
      in if t = [] then Finite 0
         else (case parse_nondecimal t of
                 Some v \<Rightarrow> Finite (of_nat v)
               | None \<Rightarrow> parse_decimal t))"

text \<open>\<open>newStorageUsed > req.user.storageLimit\<close>; a comparison with NaN is false.\<close>

definition js_greater :: "js_sum \<Rightarrow> nat \<Rightarrow> bool" where
  "js_greater x threshold =
     (case x of
        SumNumber n \<Rightarrow> n > of_nat threshold
      | SumString s \<Rightarrow>
          (case string_to_number s of
             Finite n \<Rightarrow> n > of_nat threshold
           | PosInfinity \<Rightarrow> True
           | _ \<Rightarrow> False))"

text \<open>
  The middleware answers 401 without a user, 413 over the limit, and calls \<open>next()\<close>
  otherwise. \<open>req.body.fileSize || 0\<close> replaces an absent or falsy field by 0.
\<close>

definition checkStorageLimit :: "user option \<Rightarrow> body_value option \<Rightarrow> middleware_result" where
  "checkStorageLimit req_user body_fileSize =
     (case req_user of
        None \<Rightarrow> Respond 401
      | Some u \<Rightarrow>
          let fileSize = (case body_fileSize of
                            None \<Rightarrow> VNumber 0
                          | Some v \<Rightarrow> if truthy v then v else VNumber 0);
              newStorageUsed = js_add (storageUsed u) fileSize
          in if js_greater newStorageUsed (storageLimit u) then Respond 413 else Next)"

subsection \<open>The handler\<close>

text \<open>
  The body of the \<open>try\<close> block after the test of \<open>req.file\<close>. The result is the status
  of the response sent, or the exception thrown, with the store as it is at that point.
\<close>

definition upload_try ::
  "crypto_lib \<Rightarrow> config \<Rightarrow> env \<Rightarrow> user \<Rightarrow> upload_file \<Rightarrow> jsvalue upload_fields \<Rightarrow> store
   \<Rightarrow> (exn + nat) \<times> store" where
  "upload_try lib cfg e u f body st =
     (case uploadSchema_parse body of
        Inl err \<Rightarrow> (Inl err, st)
      | Inr parsed \<Rightarrow>
          let userId = user_id u;
              fileSize = file_size f;
              newStorageUsed = storageUsed u + fileSize
          in if newStorageUsed > storageLimit u then
               (case fs_unlink (files st) (path f) of
                  Inl err \<Rightarrow> (Inl err, st)
                | Inr fs' \<Rightarrow> (Inr 413, st\<lparr>files := fs'\<rparr>))
             else
               let isImage = startsWith (mimetype f) (str ''image/'');
                   (ocrText, ocrJson) = (if isImage then processOCR (recognized e) else ([], None))
               in case fs_readFile (files st) (path f) of
                    Inl err \<Rightarrow> (Inl err, st)
                  | Inr originalBuffer \<Rightarrow>
                      let (encrypted, iv, authTag) =
                            encryptBuffer lib cfg (randomBytes e) originalBuffer userId;
                          storedName =
                            path_basename_ext (filename f) (path_extname (filename f))
                              @ str ''.encrypted'';
                          encryptedFilePath = path_join (path_dirname (path f)) storedName
                      in if writeFile_fails e then (Inl FsError, st)
                         else
                           let st1 = st\<lparr>files := (files st)(encryptedFilePath \<mapsto> encrypted)\<rparr>
                           in case fs_unlink (files st1) (path f) of
                                Inl err \<Rightarrow> (Inl err, st1)
                              | Inr fs2 \<Rightarrow>
                                  let st2 = st1\<lparr>files := fs2\<rparr>;
                                      row = \<lparr> d_user_id = userId,
                                              d_filename = originalname f,
                                              d_mime_type = mimetype f,
                                              d_byte_size = fileSize,
                                              d_storage_path = encryptedFilePath,
                                              d_iv = iv,
                                              d_auth_tag = authTag,
                                              d_status = str ''ready'',
                                              d_provider = or_null (f_provider parsed),
                                              d_invoice_number = or_null (f_invoiceNumber parsed),
                                              d_currency =
                                                (case or_null (f_currency parsed) of
                                                   None \<Rightarrow> str ''EUR'' | Some c \<Rightarrow> c),
                                              d_amount = or_null (f_amount parsed),
                                              d_issue_date = or_null (f_issueDate parsed),
                                              d_meta = ocrJson \<rparr>
                                  in if insert_document_fails e then (Inl DbError, st2)
                                     else
                                       let st3 = st2\<lparr>documents := documents st2 @ [row]\<rparr>;
                                           documentId = insertId e;
                                           ocr = \<lparr> ocr_document_id = documentId,
                                                   ocr_text = stored_ocr_text isImage ocrText,
                                                   ocr_json = ocrJson \<rparr>
                                       in if insert_ocr_fails e then (Inl DbError, st3)
                                          else
                                            let st4 = st3\<lparr>ocr_results := ocr_results st3 @ [ocr]\<rparr>
                                            in if update_users_fails e then (Inl DbError, st4)
                                               else (Inr 201,
                                                     st4\<lparr>storage_used := (storage_used st4)
                                                       (userId := storage_used st4 userId + fileSize)\<rparr>))"

text \<open>
  The handler: 400 without a file; otherwise the \<open>try\<close> block, and on an exception the
  \<open>catch\<close> block, which unlinks \<open>req.file.path\<close> (a failure of that is logged only) and
  answers 400 for a ZodError and 500 for anything else.
\<close>

definition upload_handler ::
  "crypto_lib \<Rightarrow> config \<Rightarrow> env \<Rightarrow> user \<Rightarrow> upload_file option \<Rightarrow> jsvalue upload_fields \<Rightarrow> store
   \<Rightarrow> nat \<times> store" where
  "upload_handler lib cfg e u req_file body st =
     (case req_file of
        None \<Rightarrow> (400, st)
      | Some f \<Rightarrow>
          (case upload_try lib cfg e u f body st of
             (Inr status, st') \<Rightarrow> (status, st')
           | (Inl err, st') \<Rightarrow>
               let st'' = (case fs_unlink (files st') (path f) of
                             Inl _ \<Rightarrow> st'
                           | Inr fs' \<Rightarrow> st'\<lparr>files := fs'\<rparr>)
               in (if err = ZodError then 400 else 500, st'')))"

text \<open>
  The route: \<open>checkStorageLimit\<close>, then multer, then the handler. The body is not parsed
  before multer runs, so the middleware sees \<open>body_fileSize\<close> of a multipart request as
  \<open>None\<close>.
\<close>

definition upload_route ::
  "crypto_lib \<Rightarrow> config \<Rightarrow> env \<Rightarrow> user option \<Rightarrow> body_value option \<Rightarrow> file_part option
   \<Rightarrow> jsvalue upload_fields \<Rightarrow> store \<Rightarrow> nat \<times> store" where
  "upload_route lib cfg e req_user body_fileSize part body st =
     (case checkStorageLimit req_user body_fileSize of
        Respond status \<Rightarrow> (status, st)
      | Next \<Rightarrow>
          (case req_user of
             None \<Rightarrow> (401, st)
           | Some u \<Rightarrow>
               (case multer_single cfg e part st of
                  Inl status \<Rightarrow> (status, st)
                | Inr (req_file, st') \<Rightarrow> upload_handler lib cfg e u req_file body st')))"

section \<open>Filtered search: \<open>POST /search\<close> (search router)\<close>

subsection \<open>Request validation\<close>

text \<open>
  \<open>searchSchema\<close>: \<open>query\<close> a string of length at least 1, \<open>filters\<close> an optional object
  of optional strings and numbers, \<open>limit\<close> a number in 1..100 with default 20,
  \<open>offset\<close> a number from 0 with default 0. \<open>z.number()\<close> does not ask for an integer.
\<close>

record filters_body =
  dateFrom :: "jsvalue option"
  dateTo :: "jsvalue option"
  filter_provider :: "jsvalue option"
  minAmount :: "jsvalue option"
  maxAmount :: "jsvalue option"
  filter_currency :: "jsvalue option"

datatype filters_field = NoFilters | FiltersObject filters_body | FiltersOther

record search_body =
  body_query :: "jsvalue option"
  body_filters :: filters_field
  body_limit :: "jsvalue option"
  body_offset :: "jsvalue option"

record search_params =
  searchQuery :: jsstring
  limit :: rat
  offset :: rat

definition optional_string :: "jsvalue option \<Rightarrow> bool" where
  "optional_string v = (case v of None \<Rightarrow> True | Some (JString _) \<Rightarrow> True | Some _ \<Rightarrow> False)"

definition optional_number :: "jsvalue option \<Rightarrow> bool" where
  "optional_number v = (case v of None \<Rightarrow> True | Some (JNumber _) \<Rightarrow> True | Some _ \<Rightarrow> False)"

definition filters_ok :: "filters_field \<Rightarrow> bool" where
  "filters_ok fl =
     (case fl of
        NoFilters \<Rightarrow> True
      | FiltersOther \<Rightarrow> False
      | FiltersObject fb \<Rightarrow>
          optional_string (dateFrom fb) \<and> optional_string (dateTo fb)
          \<and> optional_string (filter_provider fb) \<and> optional_number (minAmount fb)
          \<and> optional_number (maxAmount fb) \<and> optional_string (filter_currency fb))"

text \<open>\<open>z.number().min(lo).default(d)\<close>, with \<open>.max(hi)\<close> when \<open>hi\<close> is given.\<close>

definition bounded_number :: "rat \<Rightarrow> rat option \<Rightarrow> rat \<Rightarrow> jsvalue option \<Rightarrow> exn + rat" where
  "bounded_number lo hi d v =
     (case v of
        None \<Rightarrow> Inr d
      | Some (JNumber n) \<Rightarrow>
          if n < lo then Inl ZodError
          else (case hi of
                  None \<Rightarrow> Inr n
                | Some h \<Rightarrow> if n > h then Inl ZodError else Inr n)
      | Some _ \<Rightarrow> Inl ZodError)"

definition searchSchema_parse :: "search_body \<Rightarrow> exn + search_params" where
  "searchSchema_parse body =
     (case body_query body of
        Some (JString q) \<Rightarrow>
          if length q < 1 \<or> \<not> filters_ok (body_filters body) then Inl ZodError
          else (case (bounded_number 1 (Some 100) 20 (body_limit body),
                      bounded_number 0 None 0 (body_offset body)) of
                  (Inr l, Inr off) \<Rightarrow> Inr \<lparr> searchQuery = q, limit = l, offset = off \<rparr>
                | _ \<Rightarrow> Inl ZodError)
      | _ \<Rightarrow> Inl ZodError)"

subsection \<open>Boost pass and response\<close>

text \<open>
  A row of the result set, with the columns the boost pass reads. \<open>relevance_score\<close> is
  the value of \<open>MATCH ... AGAINST\<close>, a number or null; scores are modelled as rationals.
\<close>

record search_row =
  row_id :: nat
  row_filename :: "jsstring option"
  row_provider :: "jsstring option"
  row_invoice_number :: "jsstring option"
  row_ocr_text :: "jsstring option"
  relevance_score :: "rat option"

text \<open>
  \<open>field?.toLowerCase().includes(q.toLowerCase())\<close> and \<open>field?.includes(q)\<close>: a null
  field gives no boost. \<open>String.prototype.toLowerCase\<close> follows the Unicode tables of the
  runtime; it is the parameter \<open>toLowerCase\<close>, and \<open>ascii_toLowerCase\<close> is what it does
  on ASCII text.
\<close>

definition ascii_toLowerCase :: "jsstring \<Rightarrow> jsstring" where
  "ascii_toLowerCase s = map (\<lambda>c. if 65 \<le> c \<and> c \<le> 90 then c + 32 else c) s"

definition includes_ci :: "(jsstring \<Rightarrow> jsstring) \<Rightarrow> jsstring option \<Rightarrow> jsstring \<Rightarrow> bool" where
  "includes_ci toLowerCase field q =
     (case field of None \<Rightarrow> False | Some s \<Rightarrow> str_includes (toLowerCase s) (toLowerCase q))"

definition includes_cs :: "jsstring option \<Rightarrow> jsstring \<Rightarrow> bool" where
  "includes_cs field q = (case field of None \<Rightarrow> False | Some s \<Rightarrow> str_includes s q)"

text \<open>The callback of \<open>documents.map\<close>: the boosted score, floored at 0.\<close>

definition boosted_score :: "(jsstring \<Rightarrow> jsstring) \<Rightarrow> jsstring \<Rightarrow> search_row \<Rightarrow> rat" where
  "boosted_score toLowerCase q doc =
     (let s0 = (case relevance_score doc of None \<Rightarrow> 0 | Some r \<Rightarrow> r);
          s1 = (if includes_ci toLowerCase (row_filename doc) q then s0 + 10 else s0);
          s2 = (if includes_ci toLowerCase (row_provider doc) q then s1 + 8 else s1);
          s3 = (if includes_cs (row_invoice_number doc) q then s2 + 12 else s2);
          s4 = (if includes_ci toLowerCase (row_ocr_text doc) q then s3 + 5 else s3)
      in max s4 0)"

definition process_row :: "(jsstring \<Rightarrow> jsstring) \<Rightarrow> jsstring \<Rightarrow> search_row \<Rightarrow> search_row" where
  "process_row toLowerCase q doc = doc\<lparr>relevance_score := Some (boosted_score toLowerCase q doc)\<rparr>"

definition final_score :: "search_row \<Rightarrow> rat" where
  "final_score doc = (case relevance_score doc of None \<Rightarrow> 0 | Some r \<Rightarrow> r)"

text \<open>
  \<open>processedDocuments.sort((a, b) => b.relevance_score - a.relevance_score)\<close>: the sort
  is stable and descending in the score.
\<close>

definition sort_by_score :: "search_row list \<Rightarrow> search_row list" where
  "sort_by_score docs = sort_key (\<lambda>d. - final_score d) docs"

record search_response =
  res_documents :: "search_row list"
  res_limit :: rat
  res_offset :: rat
  res_total :: nat
  res_pages :: int

text \<open>
  The store answers two queries over the same WHERE clause. \<open>matching\<close> is the list of
  the rows that satisfy it, in the order of \<open>ORDER BY relevance_score DESC, created_at
  DESC\<close>; the page query returns \<open>LIMIT limit OFFSET offset\<close> of it and the count query
  its length. LIMIT and OFFSET count rows: the store refuses a number that is not an
  integer, and the query throws. \<open>query_fails\<close> says that the store throws for a reason
  of its own.
\<close>

definition is_integer :: "rat \<Rightarrow> bool" where
  "is_integer x = (of_int \<lfloor>x\<rfloor> = x)"

definition select_page :: "search_row list \<Rightarrow> rat \<Rightarrow> rat \<Rightarrow> exn + search_row list" where
  "select_page matching l off =
     (if is_integer l \<and> is_integer off
      then Inr (take (nat \<lfloor>l\<rfloor>) (drop (nat \<lfloor>off\<rfloor>) matching))
      else Inl DbError)"

text \<open>
  The handler: 400 when validation fails, 500 when a query throws, and otherwise the
  boosted and sorted page with the pagination block.
\<close>

definition search_handler ::
  "(jsstring \<Rightarrow> jsstring) \<Rightarrow> bool \<Rightarrow> search_row list \<Rightarrow> search_body
   \<Rightarrow> nat \<times> search_response option" where
  "search_handler toLowerCase query_fails matching body =
     (case searchSchema_parse body of
        Inl err \<Rightarrow> (400, None)
      | Inr p \<Rightarrow>
          if query_fails then (500, None)
          else
            (case select_page matching (limit p) (offset p) of
               Inl err \<Rightarrow> (500, None)
             | Inr page \<Rightarrow>
                 let total = length matching;
                     processedDocuments = map (process_row toLowerCase (searchQuery p)) page
                 in (200, Some \<lparr> res_documents = sort_by_score processedDocuments,
                                  res_limit = limit p,
                                  res_offset = offset p,
                                  res_total = total,
                                  res_pages = \<lceil>of_nat total / limit p\<rceil> \<rparr>)))"

text \<open>
  The score as the specification words it, with the invoice number tested like the other
  fields, as a case-insensitive substring.
\<close>

definition boosted_score_spec :: "(jsstring \<Rightarrow> jsstring) \<Rightarrow> jsstring \<Rightarrow> search_row \<Rightarrow> rat" where
  "boosted_score_spec toLowerCase q doc =
     max 0 ((case relevance_score doc of None \<Rightarrow> 0 | Some r \<Rightarrow> r)
            + (if includes_ci toLowerCase (row_filename doc) q then 10 else 0)
            + (if includes_ci toLowerCase (row_provider doc) q then 8 else 0)
            + (if includes_ci toLowerCase (row_invoice_number doc) q then 12 else 0)
            + (if includes_ci toLowerCase (row_ocr_text doc) q then 5 else 0))"

section \<open>Sample inputs\<close>

text \<open>
  Concrete values on which the handlers are evaluated below: an instance of the
  cryptographic primitives, a configuration, an outside world in which nothing fails,
  an empty form and an empty store.
\<close>

definition sample_lib :: crypto_lib where
  "sample_lib = \<lparr> scryptSync = (\<lambda>password salt. of_nat (length password)),
                  keystream = (\<lambda>key iv k. of_nat k + 1),
                  gcm_tag = (\<lambda>key iv a c. of_nat (length c)) \<rparr>"

definition sample_cfg :: config where
  "sample_cfg = \<lparr> FILE_ENC_SECRET = None, MAX_FILE_SIZE = 1073741824 \<rparr>"

definition sample_env :: env where
  "sample_env =
     \<lparr> uploadDir = str ''/srv/uploads/7/2024/03'',
       uniqueSuffix = str ''1710000000000-42'',
       recognized = Some (str ''Factura #4521 de Repsol''),
       randomBytes = 5,
       insertId = 1,
       writeFile_fails = False,
       insert_document_fails = False,
       insert_ocr_fails = False,
       update_users_fails = False \<rparr>"

definition sample_user :: user where
  "sample_user = \<lparr> user_id = 7, storageUsed = 0, storageLimit = 1000 \<rparr>"

definition no_fields :: "jsvalue upload_fields" where
  "no_fields =
     \<lparr> f_provider = None, f_invoiceNumber = None, f_currency = None, f_amount = None,
       f_issueDate = None \<rparr>"

definition empty_store :: store where
  "empty_store = \<lparr> files = Map.empty, documents = [], ocr_results = [], storage_used = (\<lambda>_. 0) \<rparr>"

definition sample_part :: file_part where
  "sample_part =
     \<lparr> part_originalname = str ''ticket.png'', part_mimetype = str ''image/png'',
       part_content = [1, 2, 3] \<rparr>"

text \<open>A file of 2048 bytes as multer stores it, and the store that holds it.\<close>

definition large_file :: upload_file where
  "large_file =
     \<lparr> originalname = str ''scan.png'', mimetype = str ''image/png'', file_size = 2048,
       filename = str ''1710000000000-42.png'',
       path = str ''/srv/uploads/7/2024/03/1710000000000-42.png'' \<rparr>"

definition large_file_store :: store where
  "large_file_store = empty_store\<lparr>files := [path large_file \<mapsto> replicate 2048 0]\<rparr>"

text \<open>A file of 3 bytes within the quota of \<open>sample_user\<close>, and the store that holds it.\<close>

definition sample_file :: upload_file where
  "sample_file =
     \<lparr> originalname = str ''ticket.png'', mimetype = str ''image/png'', file_size = 3,
       filename = str ''1710000000000-42.png'',
       path = str ''/srv/uploads/7/2024/03/1710000000000-42.png'' \<rparr>"

definition sample_file_store :: store where
  "sample_file_store = empty_store\<lparr>files := [path sample_file \<mapsto> [1, 2, 3]]\<rparr>"

text \<open>A search request for \<open>inv-7\<close> with defaults, its parsed form, and a matching row.\<close>

definition sample_search :: search_body where
  "sample_search =
     \<lparr> body_query = Some (JString (str ''inv-7'')), body_filters = NoFilters,
       body_limit = None, body_offset = None \<rparr>"

definition sample_params :: search_params where
  "sample_params = \<lparr> searchQuery = str ''inv-7'', limit = 20, offset = 0 \<rparr>"

definition sample_row :: search_row where
  "sample_row =
     \<lparr> row_id = 1, row_filename = Some (str ''inv-7.pdf''), row_provider = None,
       row_invoice_number = Some (str ''INV-7''), row_ocr_text = None,
       relevance_score = Some 0 \<rparr>"

text \<open>
  Three matching rows in the store's order, and a request for \<open>inv\<close> with the explicit
  limit 2 and offset 5, past the last row.
\<close>

definition sample_rows :: "search_row list" where
  "sample_rows =
     [sample_row,
      sample_row\<lparr>row_id := 2, row_filename := Some (str ''scan.pdf'')\<rparr>,
      sample_row\<lparr>row_id := 3, row_invoice_number := Some (str ''inv-7'')\<rparr>]"

definition sample_page_search :: search_body where
  "sample_page_search =
     \<lparr> body_query = Some (JString (str ''inv'')), body_filters = NoFilters,
       body_limit = Some (JNumber 2), body_offset = Some (JNumber 5) \<rparr>"

definition sample_page_params :: search_params where
  "sample_page_params = \<lparr> searchQuery = str ''inv'', limit = 2, offset = 5 \<rparr>"

text \<open>A file part of 2048 bytes, above the 1000-byte limit of \<open>sample_user\<close>.\<close>

definition large_part :: file_part where
  "large_part =
     \<lparr> part_originalname = str ''scan.png'', part_mimetype = str ''image/png'',
       part_content = replicate 2048 0 \<rparr>"

section \<open>Theorems\<close>

subsection \<open>Tag merge\<close>

lemma str_simps [simp]: "str [] = []" "str (c # cs) = of_char c # str cs"
  by (simp_all add: str_def)

text \<open>
  C7, as stated, fails: with the vocabulary \<open>tickets\<close> and the candidate
  \<open>ticketmaster\<close>, the singularized existing tag \<open>ticket\<close> is a prefix of the
  singularized candidate, so the stated rule selects \<open>tickets\<close>; the loop compares the
  stored name \<open>tickets\<close> itself and keeps the candidate as a new tag.
\<close>

theorem pickSimilarExisting_spec_counterexample:
  "similar_spec (str ''ticketmaster'') (str ''tickets'')
   \<and> pickSimilarExisting [\<lparr>tag_id = 1, tag_name = str ''tickets''\<rparr>] (str ''ticketmaster'')
       = str ''ticketmaster''
   \<and> str ''ticketmaster'' \<noteq> str ''tickets''"
  by (simp add: similar_spec_def singular_def startsWith_def endsWith_def)

text \<open>
  C7, amended: the merge step returns the name of the first existing tag, in vocabulary
  order, that equals the candidate, or whose singularized form equals the candidate's
  singularized form, or whose stored name is a prefix of the singularized candidate or
  has the singularized candidate as a prefix; when no existing tag passes, it returns
  the candidate, which becomes a new tag.
\<close>

theorem pickSimilarExisting_first_similar:
  "pickSimilarExisting rows candidate =
     (case List.find (\<lambda>row. similar_code candidate (tag_name row)) rows of
        Some row \<Rightarrow> tag_name row
      | None \<Rightarrow> candidate)"
  by (induction rows) (auto simp: similar_code_def Let_def)

subsection \<open>Field parser\<close>

lemmas regex_defs =
  seqs_def lit_def star_def plus_re_def opt_def digit_def space_def upper_def lower_def
  digit_ranges_def space_ranges_def in_class_def canonicalize_def date_sep_def capitalized_def

lemma sample_amount_match:
  "search False amountRegex
     (str ''Factura #4521 de Repsol, 45,67'' @ [8364] @ str '', 15/03/2024'')
   = Some (str ''45,67'' @ [8364])"
  by (simp add: amountRegex_def regex_defs)

lemma sample_date_match:
  "search False dateRegex
     (str ''Factura #4521 de Repsol, 45,67'' @ [8364] @ str '', 15/03/2024'')
   = Some (str ''15/03/2024'')"
  by (simp add: dateRegex_def regex_defs)

lemma sample_invoice_match:
  "search True invoiceRegex
     (str ''Factura #4521 de Repsol, 45,67'' @ [8364] @ str '', 15/03/2024'')
   = Some (str ''Factura #4521'')"
  by (simp add: invoiceRegex_def regex_defs)

lemma sample_provider_match:
  "search False providerRegex
     (str ''Factura #4521 de Repsol, 45,67'' @ [8364] @ str '', 15/03/2024'')
   = Some (str ''de Repsol'')"
  by (simp add: providerRegex_def regex_defs)

text \<open>
  C5: on the text \<open>Factura #4521 de Repsol, 45,67E, 15/03/2024\<close> the parser sets the
  invoice number \<open>4521\<close>, the provider \<open>Repsol\<close> and the date \<open>15/03/2024\<close>; the amount
  it sets is the matched text with its comma replaced, \<open>45.67E\<close>: a string that ends
  in the currency sign, not a number. (\<open>E\<close> stands for the euro sign, code unit 8364.)
\<close>

theorem extractDocumentData_sample:
  "extractDocumentData (str ''Factura #4521 de Repsol, 45,67'' @ [8364] @ str '', 15/03/2024'')
   = \<lparr> amount = Some (str ''45.67'' @ [8364]),
       issueDate = Some (str ''15/03/2024''),
       invoiceNumber = Some (str ''4521''),
       provider = Some (str ''Repsol'') \<rparr>"
  unfolding extractDocumentData_def sample_amount_match sample_date_match
    sample_invoice_match sample_provider_match
  by (simp add: strip_prefix_def providerPrefix_def regex_defs)

subsection \<open>Crypto vault\<close>

lemma xor_stream_involution:
  "xor_stream lib key iv (xor_stream lib key iv buffer) = buffer"
  by (rule nth_equalityI) (simp_all add: xor_stream_def xor.assoc)

text \<open>
  C1: for every byte sequence and every tenant, \<open>decryptBuffer\<close> applied to the
  ciphertext, IV and tag that \<open>encryptBuffer\<close> returned, with the same tenant, returns
  the byte sequence; this holds for every key-derivation, keystream and tag function
  and every drawn IV.
\<close>

theorem decrypt_encrypt_roundtrip:
  "(case encryptBuffer lib cfg iv b t of
      (encrypted, iv', authTag) \<Rightarrow> decryptBuffer lib cfg encrypted iv' authTag t) = Inr b"
  by (simp add: encryptBuffer_def decryptBuffer_def gcm_encrypt_def gcm_decrypt_def
      Let_def xor_stream_involution)

subsection \<open>Quota and ingestion\<close>

lemma uploadSchema_parse_cases:
  "uploadSchema_parse body = Inl ZodError \<or> (\<exists>p. uploadSchema_parse body = Inr p)"
  by (auto simp: uploadSchema_parse_def split: sum.splits)

lemmas sample_defs =
  sample_env_def sample_user_def sample_part_def sample_cfg_def no_fields_def empty_store_def
  large_file_def large_file_store_def sample_file_def sample_file_store_def

lemmas path_defs =
  path_join_def path_dirname_def path_extname_def path_basename_def path_basename_ext_def
  startsWith_def endsWith_def

text \<open>
  C3, as stated, fails: a 2048-byte file under a limit of 1000 bytes with 0 used, sent
  with a \<open>provider\<close> field that is not a string, is answered 400 and not 413, because
  \<open>uploadSchema.parse\<close> runs before the quota check.
\<close>

theorem over_quota_invalid_metadata_counterexample:
  "storageUsed sample_user + file_size large_file > storageLimit sample_user
   \<and> files large_file_store (path large_file) \<noteq> None
   \<and> fst (upload_handler sample_lib sample_cfg sample_env sample_user (Some large_file)
          (no_fields\<lparr>f_provider := Some JOther\<rparr>) large_file_store) = 400"
  by (simp add: upload_handler_def upload_try_def sample_defs uploadSchema_parse_def
      parse_field_def fs_unlink_def)

text \<open>
  C3, amended: for every upload whose file is on disk and whose true size added to the
  tenant's usage exceeds the tenant's limit, the handler deletes the uploaded file and
  changes nothing else (no Document row, no OCR row, usage as before); it answers 413
  when the metadata passes validation and 400 when it does not.
\<close>

theorem over_quota_upload_rolled_back:
  assumes "files st (path f) = Some content"
      and "storageUsed u + file_size f > storageLimit u"
  shows "upload_handler lib cfg e u (Some f) body st =
           (if uploadSchema_parse body = Inl ZodError then 400 else 413,
            st\<lparr>files := (files st)(path f := None)\<rparr>)"
  using assms uploadSchema_parse_cases[of body]
  by (auto simp: upload_handler_def upload_try_def fs_unlink_def Let_def)

theorem over_quota_upload_rolled_back_witness:
  "files large_file_store (path large_file) = Some (replicate 2048 0)
   \<and> storageUsed sample_user + file_size large_file > storageLimit sample_user
   \<and> upload_handler sample_lib sample_cfg sample_env sample_user (Some large_file) no_fields
         large_file_store
       = (413, large_file_store\<lparr>files := (files large_file_store)(path large_file := None)\<rparr>)"
  using over_quota_upload_rolled_back[of large_file_store large_file "replicate 2048 0"
      sample_user sample_lib sample_cfg sample_env no_fields]
  by (simp add: sample_defs uploadSchema_parse_def parse_field_def)

text \<open>
  C4 fails on the code: a 3-byte image within quota is uploaded to an empty store and the
  Document INSERT throws. The answer is 500 and no Document row exists, but the encrypted
  blob written before the INSERT is still on disk: the \<open>catch\<close> block unlinks only
  \<open>req.file.path\<close>, which the \<open>try\<close> block had already unlinked.
\<close>

theorem insert_failure_leaves_encrypted_blob:
  "(case upload_route sample_lib sample_cfg (sample_env\<lparr>insert_document_fails := True\<rparr>)
          (Some sample_user) None (Some sample_part) no_fields empty_store of
      (status, st') \<Rightarrow>
        status = 500
        \<and> files st' (str ''/srv/uploads/7/2024/03/1710000000000-42.encrypted'') \<noteq> None
        \<and> files st' (str ''/srv/uploads/7/2024/03/1710000000000-42.png'') = None
        \<and> documents st' = [])"
  by (simp add: upload_route_def checkStorageLimit_def js_add_def js_greater_def
      multer_single_def upload_handler_def upload_try_def sample_defs uploadSchema_parse_def
      parse_field_def fs_unlink_def fs_readFile_def path_defs processOCR_def encryptBuffer_def
      gcm_encrypt_def Let_def)

lemmas number_defs =
  string_to_number_def trim_def space_ranges_def in_class_def parse_nondecimal_def
  parse_decimal_def parse_unsigned_decimal_def parse_exponent_def is_digit_of_def
  digit_value_def radix_value_def

lemma checkStorageLimit_urlencoded_string:
  "checkStorageLimit (Some \<lparr>user_id = 7, storageUsed = 10, storageLimit = 100\<rparr>)
     (Some (VString (str ''5''))) = Respond 413"
  by (simp add: checkStorageLimit_def truthy_def js_add_def js_greater_def number_defs Let_def)

lemma string_to_number_samples:
  "string_to_number (str '' 10e2 '') = Finite 1000"
  "string_to_number (str ''0x1A'') = Finite 26"
  "string_to_number (str ''10.5'') = Finite (21 / 2)"
  "string_to_number (str ''10abc'') = NaN"
  "string_to_number (str ''-Infinity'') = NegInfinity"
  "string_to_number (str ''1e-2'') = Finite (1 / 100)"
  by (simp_all add: number_defs Let_def)

text \<open>
  C9: the pre-check reads the estimated size from \<open>req.body.fileSize\<close>: a number there is
  added to the tenant's usage and the sum compared with the limit, and a non-empty string
  is appended to the printed usage before the comparison; an absent field counts as 0.
  On a multipart upload, whose body the middleware sees unparsed, it therefore passes
  exactly when the tenant's usage does not exceed the limit, whatever the file; the route
  then continues with multer and the handler; and once the pre-check has passed, the
  route answers 413 exactly when the stored file's true size added to the usage exceeds
  the limit (for a file multer accepts and metadata that passes validation).
\<close>

theorem multipart_pre_check_ignores_file_size:
  "checkStorageLimit (Some u) (Some (VNumber n)) =
     (if of_nat (storageUsed u) + n > of_nat (storageLimit u) then Respond 413 else Next)
   \<and> (s \<noteq> [] \<longrightarrow>
        checkStorageLimit (Some u) (Some (VString s)) =
          (if js_greater (SumString (decimal (storageUsed u) @ s)) (storageLimit u)
           then Respond 413 else Next))
   \<and> checkStorageLimit (Some u) None = checkStorageLimit (Some u) (Some (VNumber 0))
   \<and> (checkStorageLimit (Some u) None = Next \<longleftrightarrow> storageUsed u \<le> storageLimit u)
   \<and> (storageUsed u \<le> storageLimit u \<longrightarrow>
        upload_route lib cfg e (Some u) None part body st =
          (case multer_single cfg e part st of
             Inl status \<Rightarrow> (status, st)
           | Inr (req_file, st') \<Rightarrow> upload_handler lib cfg e u req_file body st'))
   \<and> (storageUsed u \<le> storageLimit u \<longrightarrow>
        (fst (upload_route lib cfg e (Some u) None (Some p) body st) = 413
         \<longleftrightarrow> length (part_content p) \<le> MAX_FILE_SIZE cfg
              \<and> uploadSchema_parse body \<noteq> Inl ZodError
              \<and> storageUsed u + length (part_content p) > storageLimit u))"
proof -
  have r: "checkStorageLimit (Some u) (Some (VNumber n)) =
     (if of_nat (storageUsed u) + n > of_nat (storageLimit u) then Respond 413 else Next)"
    by (simp add: checkStorageLimit_def truthy_def js_add_def js_greater_def)
  have t: "s \<noteq> [] \<longrightarrow>
        checkStorageLimit (Some u) (Some (VString s)) =
          (if js_greater (SumString (decimal (storageUsed u) @ s)) (storageLimit u)
           then Respond 413 else Next)"
    by (simp add: checkStorageLimit_def truthy_def js_add_def)
  have a: "checkStorageLimit (Some u) None = checkStorageLimit (Some u) (Some (VNumber 0))"
    by (simp add: checkStorageLimit_def truthy_def)
  have b: "checkStorageLimit (Some u) None = Next \<longleftrightarrow> storageUsed u \<le> storageLimit u"
    by (auto simp: checkStorageLimit_def js_add_def js_greater_def Let_def)
  have c: "storageUsed u \<le> storageLimit u \<longrightarrow>
        upload_route lib cfg e (Some u) None part body st =
          (case multer_single cfg e part st of
             Inl status \<Rightarrow> (status, st)
           | Inr (req_file, st') \<Rightarrow> upload_handler lib cfg e u req_file body st')"
    using b by (auto simp: upload_route_def)
  have d: "fst (upload_route lib cfg e (Some u) None (Some p) body st) = 413
         \<longleftrightarrow> length (part_content p) \<le> MAX_FILE_SIZE cfg
              \<and> uploadSchema_parse body \<noteq> Inl ZodError
              \<and> storageUsed u + length (part_content p) > storageLimit u"
    if h: "storageUsed u \<le> storageLimit u"
  proof -
    have n: "checkStorageLimit (Some u) None = Next" using b h by simp
    show ?thesis
      using uploadSchema_parse_cases[of body]
      by (auto simp: upload_route_def n multer_single_def upload_handler_def
          upload_try_def fs_unlink_def fs_readFile_def Let_def
          split: sum.splits prod.splits if_splits option.splits)
  qed
  from r t a b c d show ?thesis by blast
qed

theorem multipart_pre_check_ignores_file_size_witness:
  "storageUsed sample_user \<le> storageLimit sample_user
   \<and> checkStorageLimit (Some sample_user) None = Next
   \<and> checkStorageLimit (Some sample_user) (Some (VNumber 2048)) = Respond 413
   \<and> fst (upload_route sample_lib sample_cfg sample_env (Some sample_user) None
             (Some large_part) no_fields empty_store) = 413"
proof -
  have h: "storageUsed sample_user \<le> storageLimit sample_user"
    by (simp add: sample_user_def)
  have n: "rat_of_nat (storageUsed sample_user) + 2048 > rat_of_nat (storageLimit sample_user)"
    by (simp add: sample_user_def)
  have m: "length (part_content large_part) \<le> MAX_FILE_SIZE sample_cfg"
    by (simp add: large_part_def sample_cfg_def)
  have v: "uploadSchema_parse no_fields \<noteq> Inl ZodError"
    by (simp add: no_fields_def uploadSchema_parse_def parse_field_def)
  have q: "storageUsed sample_user + length (part_content large_part) > storageLimit sample_user"
    by (simp add: sample_user_def large_part_def)
  note t = multipart_pre_check_ignores_file_size[of sample_user 2048 "str ''5''"
        sample_lib sample_cfg sample_env "Some large_part" no_fields empty_store large_part]
  from t have "checkStorageLimit (Some sample_user) (Some (VNumber 2048)) =
     (if rat_of_nat (storageUsed sample_user) + 2048 > rat_of_nat (storageLimit sample_user)
      then Respond 413 else Next)"
    by blast
  with n have r: "checkStorageLimit (Some sample_user) (Some (VNumber 2048)) = Respond 413"
    by simp
  from t h have p: "checkStorageLimit (Some sample_user) None = Next"
    by blast
  from t h m v q have "fst (upload_route sample_lib sample_cfg sample_env (Some sample_user) None
             (Some large_part) no_fields empty_store) = 413"
    by blast
  with h r p show ?thesis by blast
qed

subsection \<open>OCR noise heuristic\<close>

lemma stored_ocr_text_image:
  "(stored_ocr_text True t = [] \<longleftrightarrow> length (trim (collapse_ws False t)) < 20)
   \<and> stored_ocr_text True t = (if length (trim (collapse_ws False t)) < 20 then [] else t)"
  by (cases "t = []") (auto simp: stored_ocr_text_def Let_def trim_def)

lemma upload_handler_created:
  assumes "fst (upload_handler lib cfg e u (Some f) body st) = 201"
  shows "ocr_results (snd (upload_handler lib cfg e u (Some f) body st)) =
           ocr_results st @
           [\<lparr> ocr_document_id = insertId e,
              ocr_text = stored_ocr_text (startsWith (mimetype f) (str ''image/''))
                (if startsWith (mimetype f) (str ''image/'') then fst (processOCR (recognized e)) else []),
              ocr_json = (if startsWith (mimetype f) (str ''image/'') then snd (processOCR (recognized e)) else None) \<rparr>]"
  using assms
  by (auto simp: upload_handler_def upload_try_def Let_def fs_unlink_def fs_readFile_def
       split: sum.splits if_splits option.splits prod.splits)

text \<open>
  C10: for every image upload that the handler answers 201, one OCR row is added; its
  text is the empty string exactly when the recognized text, with whitespace runs
  collapsed and the ends trimmed, is shorter than 20 code units, and it is the recognized
  text unmodified otherwise.
\<close>

theorem image_upload_ocr_text:
  assumes "startsWith (mimetype f) (str ''image/'')"
      and "fst (upload_handler lib cfg e u (Some f) body st) = 201"
  shows "\<exists>row. ocr_results (snd (upload_handler lib cfg e u (Some f) body st)) = ocr_results st @ [row]
           \<and> (ocr_text row = [] \<longleftrightarrow>
                length (trim (collapse_ws False (fst (processOCR (recognized e))))) < 20)
           \<and> (ocr_text row \<noteq> [] \<longrightarrow> ocr_text row = fst (processOCR (recognized e)))"
  using upload_handler_created[OF assms(2)] assms(1) stored_ocr_text_image[of "fst (processOCR (recognized e))"]
  by (auto split: if_splits)

lemma sample_created:
  "fst (upload_handler sample_lib sample_cfg sample_env sample_user (Some sample_file) no_fields
         sample_file_store) = 201"
  by (simp add: upload_handler_def upload_try_def sample_defs uploadSchema_parse_def
      parse_field_def fs_unlink_def fs_readFile_def path_defs processOCR_def encryptBuffer_def
      gcm_encrypt_def Let_def)

theorem image_upload_ocr_text_witness:
  "startsWith (mimetype sample_file) (str ''image/'')
   \<and> fst (upload_handler sample_lib sample_cfg sample_env sample_user (Some sample_file) no_fields
         sample_file_store) = 201
   \<and> (\<exists>row. ocr_results (snd (upload_handler sample_lib sample_cfg sample_env sample_user
                  (Some sample_file) no_fields sample_file_store)) = ocr_results sample_file_store @ [row]
           \<and> (ocr_text row = [] \<longleftrightarrow>
                length (trim (collapse_ws False (fst (processOCR (recognized sample_env))))) < 20)
           \<and> (ocr_text row \<noteq> [] \<longrightarrow> ocr_text row = fst (processOCR (recognized sample_env))))"
proof -
  have i: "startsWith (mimetype sample_file) (str ''image/'')"
    by (simp add: sample_file_def startsWith_def)
  show ?thesis
    using i sample_created image_upload_ocr_text[OF i sample_created] by blast
qed

subsection \<open>Filtered search\<close>

text \<open>
  C6, as stated, fails: for the query \<open>inv-7\<close> and a row with filename \<open>inv-7.pdf\<close> and
  invoice number \<open>INV-7\<close>, the query is a case-insensitive substring of both, so the
  stated boosts give 10 + 12 = 22; the code tests the invoice number with
  \<open>includes(searchQuery)\<close>, case-sensitively, and gives 10.
\<close>

theorem invoice_boost_case_counterexample:
  "includes_ci ascii_toLowerCase (row_invoice_number sample_row) (str ''inv-7'')
   \<and> boosted_score_spec ascii_toLowerCase (str ''inv-7'') sample_row = 22
   \<and> boosted_score ascii_toLowerCase (str ''inv-7'') sample_row = 10"
  by (simp add: boosted_score_spec_def boosted_score_def includes_ci_def includes_cs_def
      ascii_toLowerCase_def sample_row_def startsWith_def)

lemma boosted_score_sum:
  "boosted_score lc q doc =
     max 0 ((case relevance_score doc of None \<Rightarrow> 0 | Some r \<Rightarrow> r)
            + (if includes_ci lc (row_filename doc) q then 10 else 0)
            + (if includes_ci lc (row_provider doc) q then 8 else 0)
            + (if includes_cs (row_invoice_number doc) q then 12 else 0)
            + (if includes_ci lc (row_ocr_text doc) q then 5 else 0))"
  by (simp add: boosted_score_def Let_def max.commute)

lemma final_score_process_row [simp]:
  "final_score (process_row lc q doc) = boosted_score lc q doc"
  by (simp add: final_score_def process_row_def)

lemma sorted_desc_sort_by_score:
  "sorted_wrt (\<lambda>a b. final_score a \<ge> final_score b) (sort_by_score docs)"
proof -
  have "sorted (map (\<lambda>d. - final_score d) (sort_by_score docs))"
    unfolding sort_by_score_def by (rule sorted_sort_key)
  then show ?thesis by (simp add: sorted_map)
qed

lemma mset_sort_by_score [simp]: "mset (sort_by_score docs) = mset docs"
  by (simp add: sort_by_score_def)

lemma set_sort_by_score [simp]: "set (sort_by_score docs) = set docs"
  by (simp add: sort_by_score_def)

lemma search_handler_200:
  assumes "search_handler lc qf matching body = (200, Some r)"
  obtains p page where "searchSchema_parse body = Inr p"
    and "select_page matching (limit p) (offset p) = Inr page"
    and "r = \<lparr> res_documents = sort_by_score (map (process_row lc (searchQuery p)) page),
                res_limit = limit p, res_offset = offset p, res_total = length matching,
                res_pages = \<lceil>of_nat (length matching) / limit p\<rceil> \<rparr>"
  using assms
  by (auto simp: search_handler_def Let_def split: sum.splits if_splits)

lemma select_page_subset:
  "select_page matching l off = Inr page \<Longrightarrow> set page \<subseteq> set matching"
  by (auto simp: select_page_def split: if_splits dest: in_set_takeD in_set_dropD)

text \<open>
  C6, amended: the final score of a document is its baseline relevance plus 10 if the
  query is a case-insensitive substring of the filename, plus 8 for the provider, plus 12
  if the query is a case-sensitive substring of the invoice number, plus 5 for the OCR
  text (case-insensitive), the boosts added in that order and the total floored at 0;
  the documents of every page returned are the rows of the selected page with each score
  replaced by that final score, sorted descending by it; consequently, at equal base
  relevance (a \<open>MATCH ... AGAINST\<close> score, never negative), a document whose filename
  contains the query scores strictly higher than the otherwise identical document whose
  filename does not.
\<close>

theorem boost_pass_ranking:
  "boosted_score lc q doc =
     max 0 ((case relevance_score doc of None \<Rightarrow> 0 | Some r \<Rightarrow> r)
            + (if includes_ci lc (row_filename doc) q then 10 else 0)
            + (if includes_ci lc (row_provider doc) q then 8 else 0)
            + (if includes_cs (row_invoice_number doc) q then 12 else 0)
            + (if includes_ci lc (row_ocr_text doc) q then 5 else 0))
   \<and> (search_handler lc qf matching body = (200, Some r) \<longrightarrow>
        (\<exists>p page. searchSchema_parse body = Inr p
             \<and> select_page matching (limit p) (offset p) = Inr page
             \<and> mset (res_documents r) = mset (map (process_row lc (searchQuery p)) page)
             \<and> sorted_wrt (\<lambda>a b. final_score a \<ge> final_score b) (res_documents r)
             \<and> (\<forall>d \<in> set (res_documents r). \<exists>d0 \<in> set matching.
                   d = d0\<lparr>relevance_score := Some (boosted_score lc (searchQuery p) d0)\<rparr>)))
   \<and> (includes_ci lc (row_filename doc) q \<and> \<not> includes_ci lc name' q
        \<and> 0 \<le> (case relevance_score doc of None \<Rightarrow> 0 | Some r \<Rightarrow> r)
        \<longrightarrow> boosted_score lc q doc > boosted_score lc q (doc\<lparr>row_filename := name'\<rparr>))"
proof -
  have s: "search_handler lc qf matching body = (200, Some r) \<longrightarrow>
        (\<exists>p page. searchSchema_parse body = Inr p
             \<and> select_page matching (limit p) (offset p) = Inr page
             \<and> mset (res_documents r) = mset (map (process_row lc (searchQuery p)) page)
             \<and> sorted_wrt (\<lambda>a b. final_score a \<ge> final_score b) (res_documents r)
             \<and> (\<forall>d \<in> set (res_documents r). \<exists>d0 \<in> set matching.
                   d = d0\<lparr>relevance_score := Some (boosted_score lc (searchQuery p) d0)\<rparr>))"
  proof
    assume a: "search_handler lc qf matching body = (200, Some r)"
    from a obtain p page where p: "searchSchema_parse body = Inr p"
      and g: "select_page matching (limit p) (offset p) = Inr page"
      and r: "r = \<lparr> res_documents = sort_by_score (map (process_row lc (searchQuery p)) page),
                res_limit = limit p, res_offset = offset p, res_total = length matching,
                res_pages = \<lceil>of_nat (length matching) / limit p\<rceil> \<rparr>"
      by (rule search_handler_200)
    have e: "\<forall>d \<in> set (res_documents r). \<exists>d0 \<in> set matching.
                   d = d0\<lparr>relevance_score := Some (boosted_score lc (searchQuery p) d0)\<rparr>"
      using select_page_subset[OF g] by (auto simp: r process_row_def)
    have m: "mset (res_documents r) = mset (map (process_row lc (searchQuery p)) page)"
      by (simp add: r)
    have o: "sorted_wrt (\<lambda>a b. final_score a \<ge> final_score b) (res_documents r)"
      by (simp add: r sorted_desc_sort_by_score)
    from p g m o e
    show "\<exists>p page. searchSchema_parse body = Inr p
             \<and> select_page matching (limit p) (offset p) = Inr page
             \<and> mset (res_documents r) = mset (map (process_row lc (searchQuery p)) page)
             \<and> sorted_wrt (\<lambda>a b. final_score a \<ge> final_score b) (res_documents r)
             \<and> (\<forall>d \<in> set (res_documents r). \<exists>d0 \<in> set matching.
                   d = d0\<lparr>relevance_score := Some (boosted_score lc (searchQuery p) d0)\<rparr>)"
      by blast
  qed
  have t: "includes_ci lc (row_filename doc) q \<and> \<not> includes_ci lc name' q
        \<and> 0 \<le> (case relevance_score doc of None \<Rightarrow> 0 | Some r \<Rightarrow> r)
        \<longrightarrow> boosted_score lc q doc > boosted_score lc q (doc\<lparr>row_filename := name'\<rparr>)"
    by (auto simp: boosted_score_sum split: option.splits)
  from boosted_score_sum[of lc q doc] s t show ?thesis by blast
qed

lemma sample_search_parse:
  "searchSchema_parse sample_search = Inr sample_params"
  by (simp add: searchSchema_parse_def sample_search_def sample_params_def filters_ok_def
      bounded_number_def)

lemma sample_search_response:
  "search_handler ascii_toLowerCase False [sample_row] sample_search =
     (200, Some \<lparr> res_documents =
                    sort_by_score (map (process_row ascii_toLowerCase (str ''inv-7'')) [sample_row]),
                  res_limit = 20, res_offset = 0, res_total = 1, res_pages = 1 \<rparr>)"
  by (simp add: search_handler_def sample_search_parse select_page_def is_integer_def
      sample_params_def ceiling_eq_iff)

theorem boost_pass_ranking_witness:
  "includes_ci ascii_toLowerCase (row_filename sample_row) (str ''inv-7'')
   \<and> \<not> includes_ci ascii_toLowerCase (Some (str ''scan.pdf'')) (str ''inv-7'')
   \<and> boosted_score ascii_toLowerCase (str ''inv-7'') sample_row
       > boosted_score ascii_toLowerCase (str ''inv-7'')
           (sample_row\<lparr>row_filename := Some (str ''scan.pdf'')\<rparr>)
   \<and> sorted_wrt (\<lambda>a b. final_score a \<ge> final_score b)
        (sort_by_score (map (process_row ascii_toLowerCase (str ''inv-7'')) [sample_row]))"
proof -
  have i: "includes_ci ascii_toLowerCase (row_filename sample_row) (str ''inv-7'')"
    by (simp add: includes_ci_def ascii_toLowerCase_def sample_row_def startsWith_def)
  have n: "\<not> includes_ci ascii_toLowerCase (Some (str ''scan.pdf'')) (str ''inv-7'')"
    by (simp add: includes_ci_def ascii_toLowerCase_def startsWith_def)
  have b: "0 \<le> (case relevance_score sample_row of None \<Rightarrow> 0 | Some r \<Rightarrow> r)"
    by (simp add: sample_row_def)
  show ?thesis
    using i n b sample_search_response
      boost_pass_ranking[of ascii_toLowerCase "str ''inv-7''" sample_row False "[sample_row]"
        sample_search "\<lparr> res_documents =
                    sort_by_score (map (process_row ascii_toLowerCase (str ''inv-7'')) [sample_row]),
                  res_limit = 20, res_offset = 0, res_total = 1, res_pages = 1 \<rparr>"
        "Some (str ''scan.pdf'')"]
    by fastforce
qed

lemma bounded_number_iff:
  "bounded_number lo hi d v = Inr n \<longleftrightarrow>
     (v = None \<and> n = d)
     \<or> (v = Some (JNumber n) \<and> lo \<le> n \<and> (case hi of None \<Rightarrow> True | Some h \<Rightarrow> n \<le> h))"
  by (auto simp: bounded_number_def split: option.splits jsvalue.splits if_splits)

lemma searchSchema_parse_iff:
  "searchSchema_parse body = Inr p \<longleftrightarrow>
     body_query body = Some (JString (searchQuery p)) \<and> searchQuery p \<noteq> []
     \<and> filters_ok (body_filters body)
     \<and> (body_limit body = None \<and> limit p = 20
         \<or> body_limit body = Some (JNumber (limit p)) \<and> 1 \<le> limit p \<and> limit p \<le> 100)
     \<and> (body_offset body = None \<and> offset p = 0
         \<or> body_offset body = Some (JNumber (offset p)) \<and> 0 \<le> offset p)"
proof -
  have "searchSchema_parse body = Inr p \<longleftrightarrow>
     body_query body = Some (JString (searchQuery p)) \<and> searchQuery p \<noteq> []
     \<and> filters_ok (body_filters body)
     \<and> bounded_number 1 (Some 100) 20 (body_limit body) = Inr (limit p)
     \<and> bounded_number 0 None 0 (body_offset body) = Inr (offset p)"
    by (cases p)
       (auto simp: searchSchema_parse_def split: option.splits jsvalue.splits sum.splits)
  then show ?thesis by (simp add: bounded_number_iff)
qed

lemma searchSchema_parse_error:
  "searchSchema_parse body = Inl err \<Longrightarrow> search_handler lc qf matching body = (400, None)"
  by (simp add: search_handler_def)

lemma pages_bounds:
  fixes l :: rat and n :: nat
  assumes "1 \<le> l"
  shows "of_nat n \<le> of_int \<lceil>of_nat n / l\<rceil> * l"
    and "(of_int \<lceil>of_nat n / l\<rceil> - 1) * l < of_nat n"
proof -
  have q: "0 < l" using assms by simp
  show "of_nat n \<le> of_int \<lceil>of_nat n / l\<rceil> * l"
    by (rule ceiling_divide_upper[OF q])
  show "(of_int \<lceil>of_nat n / l\<rceil> - 1) * l < of_nat n"
    by (rule ceiling_divide_lower[OF q])
qed

lemma select_page_integers:
  assumes "is_integer l" "is_integer off"
  shows "select_page matching l off = Inr (take (nat \<lfloor>l\<rfloor>) (drop (nat \<lfloor>off\<rfloor>) matching))"
  using assms by (simp add: select_page_def)

lemma select_page_past_end:
  assumes "select_page matching l off = Inr page" "of_nat (length matching) \<le> off"
  shows "page = []"
proof -
  from assms(2) have "int (length matching) \<le> \<lfloor>off\<rfloor>"
    by (simp add: le_floor_iff)
  then have "length matching \<le> nat \<lfloor>off\<rfloor>" by linarith
  with assms(1) show ?thesis by (auto simp: select_page_def split: if_splits)
qed

text \<open>
  C8: a request passes validation exactly when its query is a non-empty string, its
  filters are well-typed, its limit is absent (then 20) or a number in 1..100 (then that
  number) and its offset is absent (then 0) or a number from 0 (then that number); a
  limit outside 1..100 or a negative offset is answered 400. An accepted request with an
  integer limit and offset is answered 200 with the rows \<open>offset..offset+limit\<close> of the
  matching rows. Every 200 response carries a limit in 1..100 and an offset from 0, the
  total number of matching rows, and \<open>pages = ceil(total / limit)\<close>, the least number of
  pages of \<open>limit\<close> rows that hold \<open>total\<close> rows; and when the offset is at least the
  total, its page of documents is empty while the total is still the number of matching
  rows.
\<close>

theorem search_pagination:
  "(searchSchema_parse body = Inr p \<longleftrightarrow>
      body_query body = Some (JString (searchQuery p)) \<and> searchQuery p \<noteq> []
      \<and> filters_ok (body_filters body)
      \<and> (body_limit body = None \<and> limit p = 20
          \<or> body_limit body = Some (JNumber (limit p)) \<and> 1 \<le> limit p \<and> limit p \<le> 100)
      \<and> (body_offset body = None \<and> offset p = 0
          \<or> body_offset body = Some (JNumber (offset p)) \<and> 0 \<le> offset p))
   \<and> (body_limit body = Some (JNumber n) \<and> (n < 1 \<or> n > 100)
        \<longrightarrow> search_handler lc qf matching body = (400, None))
   \<and> (body_offset body = Some (JNumber n) \<and> n < 0
        \<longrightarrow> search_handler lc qf matching body = (400, None))
   \<and> (searchSchema_parse body = Inr p \<and> is_integer (limit p) \<and> is_integer (offset p)
        \<longrightarrow> search_handler lc False matching body =
              (200, Some \<lparr> res_documents =
                             sort_by_score (map (process_row lc (searchQuery p))
                               (take (nat \<lfloor>limit p\<rfloor>) (drop (nat \<lfloor>offset p\<rfloor>) matching))),
                           res_limit = limit p, res_offset = offset p,
                           res_total = length matching,
                           res_pages = \<lceil>of_nat (length matching) / limit p\<rceil> \<rparr>))
   \<and> (search_handler lc qf matching body = (200, Some r) \<longrightarrow>
        1 \<le> res_limit r \<and> res_limit r \<le> 100 \<and> 0 \<le> res_offset r
        \<and> res_total r = length matching
        \<and> res_pages r = \<lceil>of_nat (res_total r) / res_limit r\<rceil>
        \<and> of_nat (res_total r) \<le> of_int (res_pages r) * res_limit r
        \<and> (of_int (res_pages r) - 1) * res_limit r < of_nat (res_total r)
        \<and> length (res_documents r)
            = min (nat \<lfloor>res_limit r\<rfloor>) (length matching - nat \<lfloor>res_offset r\<rfloor>)
        \<and> (of_nat (res_total r) \<le> res_offset r \<longrightarrow> res_documents r = []))"
proof -
  have b: "body_limit body = Some (JNumber n) \<and> (n < 1 \<or> n > 100)
        \<longrightarrow> search_handler lc qf matching body = (400, None)"
    by (auto simp: search_handler_def searchSchema_parse_def bounded_number_def
      split: option.splits jsvalue.splits sum.splits)
  have c: "body_offset body = Some (JNumber n) \<and> n < 0
        \<longrightarrow> search_handler lc qf matching body = (400, None)"
    by (auto simp: search_handler_def searchSchema_parse_def bounded_number_def
      split: option.splits jsvalue.splits sum.splits)
  have d: "searchSchema_parse body = Inr p \<and> is_integer (limit p) \<and> is_integer (offset p)
        \<longrightarrow> search_handler lc False matching body =
              (200, Some \<lparr> res_documents =
                             sort_by_score (map (process_row lc (searchQuery p))
                               (take (nat \<lfloor>limit p\<rfloor>) (drop (nat \<lfloor>offset p\<rfloor>) matching))),
                           res_limit = limit p, res_offset = offset p,
                           res_total = length matching,
                           res_pages = \<lceil>of_nat (length matching) / limit p\<rceil> \<rparr>)"
    by (simp add: search_handler_def select_page_integers Let_def)
  have e: "search_handler lc qf matching body = (200, Some r) \<longrightarrow>
        1 \<le> res_limit r \<and> res_limit r \<le> 100 \<and> 0 \<le> res_offset r
        \<and> res_total r = length matching
        \<and> res_pages r = \<lceil>of_nat (res_total r) / res_limit r\<rceil>
        \<and> of_nat (res_total r) \<le> of_int (res_pages r) * res_limit r
        \<and> (of_int (res_pages r) - 1) * res_limit r < of_nat (res_total r)
        \<and> length (res_documents r)
            = min (nat \<lfloor>res_limit r\<rfloor>) (length matching - nat \<lfloor>res_offset r\<rfloor>)
        \<and> (of_nat (res_total r) \<le> res_offset r \<longrightarrow> res_documents r = [])"
  proof
    assume a: "search_handler lc qf matching body = (200, Some r)"
    from a obtain q page where q: "searchSchema_parse body = Inr q"
      and g: "select_page matching (limit q) (offset q) = Inr page"
      and r: "r = \<lparr> res_documents = sort_by_score (map (process_row lc (searchQuery q)) page),
                res_limit = limit q, res_offset = offset q, res_total = length matching,
                res_pages = \<lceil>of_nat (length matching) / limit q\<rceil> \<rparr>"
      by (rule search_handler_200)
    from q have l: "1 \<le> limit q" "limit q \<le> 100" "0 \<le> offset q"
      by (auto simp: searchSchema_parse_iff)
    from g have len: "length page = min (nat \<lfloor>limit q\<rfloor>) (length matching - nat \<lfloor>offset q\<rfloor>)"
      by (auto simp: select_page_def split: if_splits)
    have emp: "of_nat (length matching) \<le> offset q \<longrightarrow> page = []"
      using select_page_past_end[OF g] by blast
    show "1 \<le> res_limit r \<and> res_limit r \<le> 100 \<and> 0 \<le> res_offset r
        \<and> res_total r = length matching
        \<and> res_pages r = \<lceil>of_nat (res_total r) / res_limit r\<rceil>
        \<and> of_nat (res_total r) \<le> of_int (res_pages r) * res_limit r
        \<and> (of_int (res_pages r) - 1) * res_limit r < of_nat (res_total r)
        \<and> length (res_documents r)
            = min (nat \<lfloor>res_limit r\<rfloor>) (length matching - nat \<lfloor>res_offset r\<rfloor>)
        \<and> (of_nat (res_total r) \<le> res_offset r \<longrightarrow> res_documents r = [])"
      using l len emp pages_bounds[OF l(1), of "length matching"]
      by (simp add: r sort_by_score_def)
  qed
  from searchSchema_parse_iff[of body p] b c d e show ?thesis by blast
qed

lemma ceiling_three_halves: "\<lceil>(3::rat) / 2\<rceil> = 2"
  by (simp add: ceiling_eq_iff)

theorem search_pagination_witness:
  "searchSchema_parse sample_page_search = Inr sample_page_params
   \<and> is_integer (limit sample_page_params) \<and> is_integer (offset sample_page_params)
   \<and> search_handler ascii_toLowerCase False sample_rows sample_page_search =
        (200, Some \<lparr> res_documents = [], res_limit = 2, res_offset = 5, res_total = 3,
                     res_pages = 2 \<rparr>)"
proof -
  have f: "body_query sample_page_search = Some (JString (searchQuery sample_page_params))"
    "searchQuery sample_page_params \<noteq> []" "filters_ok (body_filters sample_page_search)"
    "body_limit sample_page_search = Some (JNumber (limit sample_page_params))"
    "1 \<le> limit sample_page_params" "limit sample_page_params \<le> 100"
    "body_offset sample_page_search = Some (JNumber (offset sample_page_params))"
    "0 \<le> offset sample_page_params"
    by (simp_all add: sample_page_search_def sample_page_params_def filters_ok_def)
  have i: "is_integer (limit sample_page_params)" "is_integer (offset sample_page_params)"
    by (simp_all add: sample_page_params_def is_integer_def)
  note t = search_pagination[of sample_page_search sample_page_params 0 ascii_toLowerCase False
      sample_rows "\<lparr> res_documents = [], res_limit = 2, res_offset = 5, res_total = 3,
                     res_pages = 2 \<rparr>"]
  from t f have p: "searchSchema_parse sample_page_search = Inr sample_page_params"
    by blast
  from t p i have "search_handler ascii_toLowerCase False sample_rows sample_page_search =
     (200, Some \<lparr> res_documents =
                    sort_by_score (map (process_row ascii_toLowerCase (searchQuery sample_page_params))
                      (take (nat \<lfloor>limit sample_page_params\<rfloor>)
                        (drop (nat \<lfloor>offset sample_page_params\<rfloor>) sample_rows))),
                  res_limit = limit sample_page_params, res_offset = offset sample_page_params,
                  res_total = length sample_rows,
                  res_pages = \<lceil>of_nat (length sample_rows) / limit sample_page_params\<rceil> \<rparr>)"
    by blast
  then have "search_handler ascii_toLowerCase False sample_rows sample_page_search =
        (200, Some \<lparr> res_documents = [], res_limit = 2, res_offset = 5, res_total = 3,
                     res_pages = 2 \<rparr>)"
    by (simp add: sample_page_params_def sample_rows_def sort_by_score_def ceiling_three_halves)
  with p i show ?thesis by blast
qed

end
